theory Spec2Isabelle
  imports
    Main
    "HOL-Library.Char_ord"
    "HOL-Library.List_Lexorder"
    "HOL-Library.Option_ord"
    "HOL-Library.Product_Lexorder"
    "HOL-Library.Multiset"
begin

section \<open>Catalog entity store: data model\<close>

text \<open>
  The catalog backend keeps descriptor envelopes in the table \<open>entities\<close> and scan
  targets in the table \<open>locations\<close>. An optional property of a TypeScript object
  type is an \<open>option\<close>: \<open>None\<close> is an absent (\<open>undefined\<close>) property, and in a
  table row it is SQL \<open>NULL\<close>.

  The TypeScript type \<open>object\<close> of \<open>labels\<close>, \<open>annotations\<close> and \<open>spec\<close> holds the
  JSON-safe objects and arrays. Numbers are integers here; \<open>NaN\<close>, functions and
  \<open>undefined\<close> members are outside the model.
\<close>

datatype json =
    JNull
  | JBool bool
  | JNumber int
  | JString string
  | JArray "json list"
  | JObject "(string \<times> json) list"

datatype object = Obj "(string \<times> json) list" | Arr "json list"

text \<open>
  The text columns \<open>metadata\<close> and \<open>spec\<close> hold what \<open>JSON.stringify\<close> returned. A
  JSON text is represented by the value it encodes: \<open>JSON.parse\<close> of a text written
  by \<open>JSON.stringify\<close> yields an equal value for the JSON-safe values above. Such a
  text is never the empty string, so it is truthy.
\<close>

datatype 'a json_text = JSON_text 'a

definition JSON_stringify :: "'a \<Rightarrow> 'a json_text" where
  "JSON_stringify v = JSON_text v"

fun JSON_parse :: "'a json_text \<Rightarrow> 'a" where
  "JSON_parse (JSON_text v) = v"

record Metadata =
  uid :: "string option"
  generation :: "int option"
  name :: "string option"
  namespace :: "string option"
  labels :: "object option"
  annotations :: "object option"

record DescriptorEnvelope =
  apiVersion :: string
  kind :: string
  metadata :: "Metadata option"
  spec :: "object option"

text \<open>\<open>DbEntityRequest\<close> and \<open>DbEntityResponse\<close> are the same structural type.\<close>

record DbEntityRequest =
  locationId :: "string option"
  entity :: DescriptorEnvelope

type_synonym DbEntityResponse = DbEntityRequest

record DbEntitiesRow =
  row_id :: string
  row_generation :: int
  row_locationId :: "string option"
  row_apiVersion :: string
  row_kind :: string
  row_name :: "string option"
  row_namespace :: "string option"
  row_metadata :: "Metadata json_text option"
  row_spec :: "object json_text option"

record DbLocationsRow =
  loc_id :: string
  loc_type :: string
  loc_target :: string

type_synonym DatabaseLocation = DbLocationsRow

text \<open>
  Modelled from the spec: the declaration of \<open>AddDatabaseLocation\<close> (in \<open>./types\<close>)
  is not among the sources; \<open>addLocation\<close> reads its properties \<open>type\<close> and \<open>target\<close>.
\<close>

record AddDatabaseLocation =
  add_type :: string
  add_target :: string

datatype error =
    ConflictError string
  | NotFoundError string
  | ConstraintError string
  | TypeError

text \<open>
  \<open>ConstraintError\<close> is the store's own error for an insert that violates a
  constraint of the schema; \<open>TypeError\<close> is JavaScript's error for reading a
  property of \<open>undefined\<close>.
\<close>

record Knex =
  entities_table :: "DbEntitiesRow list"
  locations_table :: "DbLocationsRow list"

subsection \<open>JavaScript operators on optional values\<close>

text \<open>\<open>s || d\<close> for an optional string: absent and the empty string are falsy.\<close>

definition or_string :: "string option \<Rightarrow> string \<Rightarrow> string" where
  "or_string s d = (case s of None \<Rightarrow> d | Some v \<Rightarrow> if v = [] then d else v)"

text \<open>\<open>s || null\<close> and \<open>s || undefined\<close> for an optional string.\<close>

definition or_null :: "string option \<Rightarrow> string option" where
  "or_null s = (case s of None \<Rightarrow> None | Some v \<Rightarrow> if v = [] then None else Some v)"

text \<open>\<open>n || d\<close> for an optional number: absent and zero are falsy.\<close>

definition or_number :: "int option \<Rightarrow> int \<Rightarrow> int" where
  "or_number n d = (case n of None \<Rightarrow> d | Some v \<Rightarrow> if v = 0 then d else v)"

text \<open>A property of the spread \<open>{...a, ...b}\<close>: the one of \<open>b\<close> when \<open>b\<close> has it.\<close>

definition spread_property :: "'a option \<Rightarrow> 'a option \<Rightarrow> 'a option" where
  "spread_property a b = (case b of None \<Rightarrow> a | Some v \<Rightarrow> Some v)"

definition spread_Metadata :: "Metadata \<Rightarrow> Metadata \<Rightarrow> Metadata" where
  "spread_Metadata a b =
     \<lparr> uid = spread_property (uid a) (uid b),
       generation = spread_property (generation a) (generation b),
       name = spread_property (name a) (name b),
       namespace = spread_property (namespace a) (namespace b),
       labels = spread_property (labels a) (labels b),
       annotations = spread_property (annotations a) (annotations b) \<rparr>"

text \<open>\<open>xs[0]\<close>: \<open>undefined\<close> on the empty array.\<close>

definition index0 :: "'a list \<Rightarrow> 'a option" where
  "index0 xs = (case xs of [] \<Rightarrow> None | x # _ \<Rightarrow> Some x)"

text \<open>\<open>request.entity.metadata?.p\<close> for a property \<open>p\<close> of the metadata.\<close>

definition metadata_property :: "(Metadata \<Rightarrow> 'a option) \<Rightarrow> DbEntityRequest \<Rightarrow> 'a option" where
  "metadata_property p request =
     (case metadata (entity request) of None \<Rightarrow> None | Some m \<Rightarrow> p m)"

section \<open>Rows and envelopes\<close>

definition entityDbToResponse :: "DbEntitiesRow \<Rightarrow> DbEntityResponse" where
  "entityDbToResponse row =
     (let metadata0 = \<lparr> uid = Some (row_id row), generation = Some (row_generation row),
                        name = None, namespace = None, labels = None, annotations = None \<rparr>;
          metadata1 = (case row_metadata row of
                         None \<Rightarrow> metadata0
                       | Some text \<Rightarrow> spread_Metadata metadata0 (JSON_parse text));
          spec1 = (case row_spec row of
                     None \<Rightarrow> None
                   | Some text \<Rightarrow> Some (JSON_parse text))
      in \<lparr> locationId = or_null (row_locationId row),
           entity = \<lparr> apiVersion = row_apiVersion row, kind = row_kind row,
                      metadata = Some metadata1, spec = spec1 \<rparr> \<rparr>)"

definition serializeMetadata :: "Metadata option \<Rightarrow> Metadata json_text option" where
  "serializeMetadata m =
     (case m of
        None \<Rightarrow> None
      | Some output \<Rightarrow> Some (JSON_stringify (output\<lparr> uid := None, generation := None \<rparr>)))"

definition serializeSpec :: "object option \<Rightarrow> object json_text option" where
  "serializeSpec s = (case s of None \<Rightarrow> None | Some v \<Rightarrow> Some (JSON_stringify v))"

text \<open>
  \<open>uuidv4 ()\<close> is random; the identifier it would return is the first argument of
  every function that may call it.
\<close>

definition entityRequestToDb :: "string \<Rightarrow> DbEntityRequest \<Rightarrow> DbEntitiesRow" where
  "entityRequestToDb uuidv4 request =
     \<lparr> row_id = or_string (metadata_property uid request) uuidv4,
       row_generation = or_number (metadata_property generation request) 1,
       row_locationId = or_null (locationId request),
       row_apiVersion = apiVersion (entity request),
       row_kind = kind (entity request),
       row_name = or_null (metadata_property name request),
       row_namespace = or_null (metadata_property namespace request),
       row_metadata = serializeMetadata (metadata (entity request)),
       row_spec = serializeSpec (spec (entity request)) \<rparr>"

section \<open>The store\<close>

text \<open>
  A table is the list of its rows in insertion order. The migration declares \<open>id\<close>
  the primary key of both tables and \<open>(name, namespace)\<close> unique in \<open>entities\<close>; in
  SQL a \<open>NULL\<close> is distinct from every value in a unique constraint, so only rows
  with both columns set can collide. An insert that collides on both is reported
  by the unique index. The foreign key of \<open>entities.locationId\<close> is
  declared without a referential action; whether it is enforced depends on the
  connection, and it is left out here.
\<close>

definition primary_key_taken :: "string \<Rightarrow> DbEntitiesRow list \<Rightarrow> bool" where
  "primary_key_taken i table \<longleftrightarrow> i \<in> set (map row_id table)"

definition unique_name_taken :: "DbEntitiesRow \<Rightarrow> DbEntitiesRow list \<Rightarrow> bool" where
  "unique_name_taken row table \<longleftrightarrow>
     row_name row \<noteq> None \<and> row_namespace row \<noteq> None \<and>
     (row_name row, row_namespace row) \<in> set (map (\<lambda>r. (row_name r, row_namespace r)) table)"

definition insert_entities :: "DbEntitiesRow \<Rightarrow> DbEntitiesRow list \<Rightarrow> error + DbEntitiesRow list" where
  "insert_entities row table =
     (if unique_name_taken row table then Inl (ConstraintError ''entities_unique_name'')
      else if primary_key_taken (row_id row) table then Inl (ConstraintError ''entities.id'')
      else Inr (table @ [row]))"

definition insert_locations :: "DbLocationsRow \<Rightarrow> DbLocationsRow list \<Rightarrow> error + DbLocationsRow list" where
  "insert_locations row table =
     (if loc_id row \<in> set (map loc_id table) then Inl (ConstraintError ''locations.id'')
      else Inr (table @ [row]))"

text \<open>
  \<open>.where({ name, namespace: namespace || null })\<close>: a \<open>null\<close> compares with
  \<open>IS NULL\<close>, a string with \<open>=\<close>, which no \<open>NULL\<close> column satisfies.
\<close>

definition where_name_namespace :: "string \<Rightarrow> string option \<Rightarrow> DbEntitiesRow \<Rightarrow> bool" where
  "where_name_namespace n ns row \<longleftrightarrow> row_name row = Some n \<and> row_namespace row = or_null ns"

text \<open>
  \<open>.orderBy('namespace', 'name')\<close>: the second argument of the query builder's
  \<open>orderBy (column, direction)\<close> is the direction, and a direction other than
  \<open>asc\<close> and \<open>desc\<close> is read as \<open>asc\<close>. The query is \<open>ORDER BY namespace asc\<close>. SQL
  leaves the order of rows with equal namespace to the database; here they keep
  their table order, and \<open>NULL\<close> sorts first.
\<close>

definition orderBy_namespace :: "DbEntitiesRow list \<Rightarrow> DbEntitiesRow list" where
  "orderBy_namespace rows = sort_key row_namespace rows"

section \<open>The Database facade\<close>

text \<open>
  Every operation returns its result, or the error it throws, with the store it
  leaves behind. A transaction that throws is rolled back.
\<close>

text \<open>
  The end of the transaction of \<open>addOrUpdateEntity\<close>: insert \<open>newRow\<close>, select the
  rows with its id and return the envelope of the first.
\<close>

definition insert_and_reread :: "Knex \<Rightarrow> DbEntitiesRow \<Rightarrow> (error + DbEntityResponse) \<times> Knex" where
  "insert_and_reread db newRow =
     (case insert_entities newRow (entities_table db) of
        Inl e \<Rightarrow> (Inl e, db)
      | Inr table \<Rightarrow>
          (case index0 (filter (\<lambda>r. row_id r = row_id newRow) table) of
             None \<Rightarrow> (Inl TypeError, db)
           | Some generated \<Rightarrow> (Inr (entityDbToResponse generated), db\<lparr> entities_table := table \<rparr>)))"

definition addOrUpdateEntity :: "string \<Rightarrow> Knex \<Rightarrow> DbEntityRequest \<Rightarrow> (error + DbEntityResponse) \<times> Knex" where
  "addOrUpdateEntity uuidv4 db request =
     (let newRow = entityRequestToDb uuidv4 request in
      case or_null (metadata_property uid request) of
        Some u \<Rightarrow>
          (if filter (\<lambda>r. row_id r = u) (entities_table db) \<noteq> []
           then insert_and_reread db newRow
           else (Inl (ConflictError ''Unexpected uid for new entity''), db))
      | None \<Rightarrow> insert_and_reread db newRow)"

definition entities :: "Knex \<Rightarrow> DbEntityResponse list" where
  "entities db = map entityDbToResponse (orderBy_namespace (entities_table db))"

definition entity_message :: "string \<Rightarrow> string option \<Rightarrow> string" where
  "entity_message n ns =
     ''Found no component with name '' @ n @ '', namespace '' @ or_string ns ''<null>''"

definition Database_entity :: "Knex \<Rightarrow> string \<Rightarrow> string option \<Rightarrow> error + DbEntityResponse" where
  "Database_entity db n ns =
     (let items = filter (where_name_namespace n ns) (entities_table db) in
      if length items \<noteq> 1 then Inl (NotFoundError (entity_message n ns))
      else (case index0 items of
              None \<Rightarrow> Inl TypeError
            | Some item \<Rightarrow> Inr (entityDbToResponse item)))"

definition addLocation :: "string \<Rightarrow> Knex \<Rightarrow> AddDatabaseLocation \<Rightarrow> (error + DatabaseLocation option) \<times> Knex" where
  "addLocation uuidv4 db location =
     (let existingLocation = filter (\<lambda>l. loc_target l = add_target location) (locations_table db) in
      case index0 existingLocation of
        Some existing \<Rightarrow> (Inr (Some existing), db)
      | None \<Rightarrow>
          (case insert_locations \<lparr> loc_id = uuidv4, loc_type = add_type location,
                                   loc_target = add_target location \<rparr> (locations_table db) of
             Inl e \<Rightarrow> (Inl e, db)
           | Inr table \<Rightarrow>
               (Inr (index0 (filter (\<lambda>l. loc_id l = uuidv4) table)),
                db\<lparr> locations_table := table \<rparr>)))"


section \<open>OAuth login popup\<close>

text \<open>
  Modelled from the spec: the class \<open>OAuthRequestManager\<close> is not among the sources,
  only its test is. A window and a payload object carry a reference, so that "the
  same object" can be told from an equal copy.
\<close>

type_synonym window = nat

text \<open>Modelled from the spec: the \<open>name\<close> and \<open>message\<close> of an error.\<close>

record oauth_error =
  error_name :: string
  error_message :: string

text \<open>
  Modelled from the spec: the payload of a message,
  \<open>{ error?: { name, message }, ...arbitraryPayload }\<close>.
\<close>

record payload =
  payload_ref :: nat
  payload_error :: "oauth_error option"
  payload_rest :: "(string \<times> json) list"

text \<open>Modelled from the spec: the \<open>data\<close> of a message, \<open>{ type, payload }\<close>.\<close>

record message_data =
  data_type :: "string option"
  data_payload :: "payload option"

text \<open>
  Modelled from the spec: the properties of a \<open>MessageEvent\<close> the listener reads.
  The test delivers events that lack any of them.
\<close>

record MessageEvent =
  event_source :: "window option"
  event_origin :: "string option"
  event_data :: "message_data option"

text \<open>Modelled from the spec: the pending result and its two settled forms.\<close>

datatype promise = Pending | Resolved payload | Rejected oauth_error

text \<open>Modelled from the spec: the options \<open>{ url, name, origin }\<close> of \<open>showLoginPopup\<close>.\<close>

record popup_options =
  popup_url :: string
  popup_name :: string
  popup_origin :: string

text \<open>
  Modelled from the spec: the state of one \<open>showLoginPopup\<close> call: the window
  opened, the trusted origin, the pending result, how often a message listener
  was added and removed, and whether the closed-polling timer runs.
\<close>

record login_popup =
  popup :: window
  trusted_origin :: string
  result :: promise
  listeners_added :: nat
  listeners_removed :: nat
  polling :: bool

text \<open>
  Modelled from the spec: \<open>showLoginPopup\<close> opens the popup (\<open>opened\<close> is the
  window \<open>window.open\<close> returned), registers exactly one message listener and starts
  polling.
\<close>

definition showLoginPopup :: "popup_options \<Rightarrow> window \<Rightarrow> login_popup" where
  "showLoginPopup options opened =
     \<lparr> popup = opened, trusted_origin = popup_origin options, result = Pending,
       listeners_added = 1, listeners_removed = 0, polling = True \<rparr>"

text \<open>
  Modelled from the spec: settlement is one-shot, and the listener and the timer
  are torn down exactly at the transition to a settled result.
\<close>

definition settle :: "promise \<Rightarrow> login_popup \<Rightarrow> login_popup" where
  "settle outcome st =
     (if result st = Pending
      then st\<lparr> result := outcome, listeners_removed := listeners_removed st + 1,
               polling := False \<rparr>
      else st)"

text \<open>
  Modelled from the spec: the listener accepts a message only if its \<open>source\<close> is
  the popup window, its \<open>origin\<close> strictly equals the trusted origin, its
  \<open>data.type\<close> is \<open>oauth-result\<close> and \<open>data.payload\<close> is present. An accepted message
  with \<open>payload.error\<close> fails the result with an error of the same name and
  message; one without resolves it with the payload as it is. Any other message
  is ignored.
\<close>

definition messageListener :: "login_popup \<Rightarrow> MessageEvent \<Rightarrow> login_popup" where
  "messageListener st ev =
     (if event_source ev \<noteq> Some (popup st) then st
      else if event_origin ev \<noteq> Some (trusted_origin st) then st
      else case event_data ev of
             None \<Rightarrow> st
           | Some d \<Rightarrow>
               (if data_type d \<noteq> Some ''oauth-result'' then st
                else case data_payload d of
                       None \<Rightarrow> st
                     | Some p \<Rightarrow>
                         (case payload_error p of
                            Some e \<Rightarrow> settle (Rejected \<lparr> error_name = error_name e,
                                                         error_message = error_message e \<rparr>) st
                          | None \<Rightarrow> settle (Resolved p) st)))"

section \<open>Example inputs\<close>

definition empty_store :: Knex where
  "empty_store = \<lparr> entities_table = [], locations_table = [] \<rparr>"

definition no_metadata :: Metadata where
  "no_metadata = \<lparr> uid = None, generation = None, name = None, namespace = None,
                    labels = None, annotations = None \<rparr>"

text \<open>
  The request \<open>{entity: {apiVersion: 'v1', kind: 'Component', metadata: {name, namespace},
  spec: {}}}\<close>.
\<close>

definition create_request :: "string \<Rightarrow> string option \<Rightarrow> DbEntityRequest" where
  "create_request n ns =
     \<lparr> locationId = None,
       entity = \<lparr> apiVersion = ''v1'', kind = ''Component'',
                  metadata = Some (no_metadata\<lparr> name := Some n, namespace := ns \<rparr>),
                  spec = Some (Obj []) \<rparr> \<rparr>"

definition with_metadata :: "(Metadata \<Rightarrow> Metadata) \<Rightarrow> DbEntityRequest \<Rightarrow> DbEntityRequest" where
  "with_metadata f request =
     request\<lparr> entity := (entity request)\<lparr> metadata := map_option f (metadata (entity request)) \<rparr> \<rparr>"

definition one_entity_store :: Knex where
  "one_entity_store = snd (addOrUpdateEntity ''id-1'' empty_store (create_request ''a'' None))"

definition update_request :: DbEntityRequest where
  "update_request = with_metadata (\<lambda>m. m\<lparr> uid := Some ''id-1'' \<rparr>) (create_request ''a'' None)"

definition generation_request :: DbEntityRequest where
  "generation_request = with_metadata (\<lambda>m. m\<lparr> generation := Some 5 \<rparr>) (create_request ''a'' None)"

definition two_entity_store :: Knex where
  "two_entity_store =
     snd (addOrUpdateEntity ''id-2''
            (snd (addOrUpdateEntity ''id-1'' empty_store (create_request ''b'' (Some ''ns''))))
            (create_request ''a'' (Some ''ns'')))"

text \<open>The sort key \<open>(namespace, name)\<close> of an envelope.\<close>

definition namespace_name :: "DbEntityResponse \<Rightarrow> string option \<times> string option" where
  "namespace_name e = (metadata_property namespace e, metadata_property name e)"

definition duplicate_name_store :: Knex where
  "duplicate_name_store =
     snd (addOrUpdateEntity ''id-2'' one_entity_store (create_request ''a'' None))"

definition one_location_store :: Knex where
  "one_location_store =
     \<lparr> entities_table = [],
       locations_table = [\<lparr> loc_id = ''loc-1'', loc_type = ''github'', loc_target = ''t1'' \<rparr>] \<rparr>"

definition github_location :: AddDatabaseLocation where
  "github_location = \<lparr> add_type = ''github'', add_target = ''t1'' \<rparr>"

text \<open>
  The events of the test \<open>should show an auth popup\<close>: the popup is window \<open>1\<close>, the
  trusted origin is \<open>my-origin\<close>.
\<close>

definition test_options :: popup_options where
  "test_options = \<lparr> popup_url = ''my-origin/api/backend/auth/start'', popup_name = ''test-popup'',
                     popup_origin = ''my-origin'' \<rparr>"

definition popupMock :: window where
  "popupMock = 1"

definition empty_event :: MessageEvent where
  "empty_event = \<lparr> event_source = None, event_origin = None, event_data = None \<rparr>"

definition empty_data :: message_data where
  "empty_data = \<lparr> data_type = None, data_payload = None \<rparr>"

definition myPayload :: payload where
  "myPayload = \<lparr> payload_ref = 7, payload_error = None, payload_rest = [] \<rparr>"

definition nope_payload :: payload where
  "nope_payload = \<lparr> payload_ref = 8,
                     payload_error = Some \<lparr> error_name = ''NopeError'', error_message = ''NOPE'' \<rparr>,
                     payload_rest = [] \<rparr>"

definition ignored_events :: "MessageEvent list" where
  "ignored_events =
     [ empty_event,
       empty_event\<lparr> event_source := Some popupMock \<rparr>,
       empty_event\<lparr> event_origin := Some ''my-origin'' \<rparr>,
       empty_event\<lparr> event_data := Some (empty_data\<lparr> data_type := Some ''oauth-result'' \<rparr>) \<rparr>,
       \<lparr> event_source = Some popupMock, event_origin = Some ''my-origin'',
         event_data = Some empty_data \<rparr>,
       \<lparr> event_source = Some popupMock, event_origin = Some ''my-origin'',
         event_data = Some \<lparr> data_type = Some ''not-oauth-result'',
                              data_payload = Some myPayload \<rparr> \<rparr> ]"

definition result_event :: "payload \<Rightarrow> MessageEvent" where
  "result_event p =
     \<lparr> event_source = Some popupMock, event_origin = Some ''my-origin'',
       event_data = Some \<lparr> data_type = Some ''oauth-result'', data_payload = Some p \<rparr> \<rparr>"

section \<open>Inserting and re-reading a row\<close>

lemma spread_property_simps:
  "spread_property a None = a"
  "spread_property a (Some v) = Some v"
  by (simp_all add: spread_property_def)

lemma serializeMetadata_no_uid:
  "serializeMetadata m = Some t \<Longrightarrow> uid (JSON_parse t) = None \<and> generation (JSON_parse t) = None"
  by (auto simp: serializeMetadata_def JSON_stringify_def split: option.splits)

lemma entityDbToResponse_written_row:
  assumes "row_metadata row = serializeMetadata m"
  shows "\<exists>md. metadata (entity (entityDbToResponse row)) = Some md
            \<and> uid md = Some (row_id row) \<and> generation md = Some (row_generation row)"
  using assms
  by (auto simp: entityDbToResponse_def Let_def serializeMetadata_def JSON_stringify_def
      spread_Metadata_def spread_property_def split: option.splits)

lemma filter_fresh_id:
  "i \<notin> set (map row_id table) \<Longrightarrow> filter (\<lambda>r. row_id r = i) table = []"
  by (induction table) auto

lemma insert_entities_Inr:
  "insert_entities row table = Inr t \<Longrightarrow> t = table @ [row] \<and> row_id row \<notin> set (map row_id table)"
  by (auto simp: insert_entities_def primary_key_taken_def split: if_splits)

lemma insert_and_reread_Inr:
  assumes "insert_and_reread db newRow = (Inr response, db')"
  shows "entities_table db' = entities_table db @ [newRow]"
    and "locations_table db' = locations_table db"
    and "response = entityDbToResponse newRow"
    and "row_id newRow \<notin> set (map row_id (entities_table db))"
proof -
  from assms obtain t where t: "insert_entities newRow (entities_table db) = Inr t"
    by (auto simp: insert_and_reread_def split: sum.splits)
  from insert_entities_Inr [OF t] have t_eq: "t = entities_table db @ [newRow]"
    and fresh: "row_id newRow \<notin> set (map row_id (entities_table db))" by simp_all
  have reread: "filter (\<lambda>r. row_id r = row_id newRow) t = [newRow]"
    using filter_fresh_id [OF fresh] by (simp add: t_eq)
  from assms t reread have "response = entityDbToResponse newRow"
    and "db' = db\<lparr> entities_table := t \<rparr>"
    by (simp_all add: insert_and_reread_def index0_def)
  then show "entities_table db' = entities_table db @ [newRow]"
    and "locations_table db' = locations_table db"
    and "response = entityDbToResponse newRow"
    and "row_id newRow \<notin> set (map row_id (entities_table db))"
    using t_eq fresh by simp_all
qed

lemma insert_and_reread_accepted:
  assumes "\<not> primary_key_taken (row_id newRow) (entities_table db)"
    and "\<not> unique_name_taken newRow (entities_table db)"
  shows "insert_and_reread db newRow =
           (Inr (entityDbToResponse newRow), db\<lparr> entities_table := entities_table db @ [newRow] \<rparr>)"
proof -
  from assms(1) have fresh: "row_id newRow \<notin> set (map row_id (entities_table db))"
    by (simp add: primary_key_taken_def)
  have "filter (\<lambda>r. row_id r = row_id newRow) (entities_table db @ [newRow]) = [newRow]"
    using filter_fresh_id [OF fresh] by simp
  with assms show ?thesis
    by (simp add: insert_and_reread_def insert_entities_def index0_def)
qed

lemma insert_and_reread_primary_key:
  assumes "primary_key_taken (row_id newRow) (entities_table db)"
  shows "insert_and_reread db newRow =
           (Inl (ConstraintError (if unique_name_taken newRow (entities_table db)
                                  then ''entities_unique_name'' else ''entities.id'')), db)"
  using assms by (simp add: insert_and_reread_def insert_entities_def)

lemma addOrUpdateEntity_Inr:
  assumes "addOrUpdateEntity uuidv4 db request = (Inr response, db')"
  shows "entities_table db' = entities_table db @ [entityRequestToDb uuidv4 request]"
    and "locations_table db' = locations_table db"
    and "response = entityDbToResponse (entityRequestToDb uuidv4 request)"
proof -
  from assms have "insert_and_reread db (entityRequestToDb uuidv4 request) = (Inr response, db')"
    by (auto simp: addOrUpdateEntity_def Let_def split: option.splits if_splits)
  from insert_and_reread_Inr [OF this]
  show "entities_table db' = entities_table db @ [entityRequestToDb uuidv4 request]"
    and "locations_table db' = locations_table db"
    and "response = entityDbToResponse (entityRequestToDb uuidv4 request)"
    by simp_all
qed

text \<open>
  A supplied uid never leads to a stored row: without a row of that id the call
  fails with the Conflict error, and with one the insert is rejected by the store.
\<close>

lemma addOrUpdateEntity_with_uid:
  assumes "or_null (metadata_property uid request) = Some u"
  shows "addOrUpdateEntity uuidv4 db request =
           (if primary_key_taken u (entities_table db)
            then (Inl (ConstraintError
                         (if unique_name_taken (entityRequestToDb uuidv4 request) (entities_table db)
                          then ''entities_unique_name'' else ''entities.id'')), db)
            else (Inl (ConflictError ''Unexpected uid for new entity''), db))"
proof -
  let ?row = "entityRequestToDb uuidv4 request"
  from assms have id: "row_id ?row = u"
    by (auto simp: entityRequestToDb_def or_null_def or_string_def split: option.splits if_splits)
  have rows: "filter (\<lambda>r. row_id r = u) (entities_table db) \<noteq> [] \<longleftrightarrow> primary_key_taken u (entities_table db)"
    by (auto simp: primary_key_taken_def filter_empty_conv)
  show ?thesis
  proof (cases "primary_key_taken u (entities_table db)")
    case True
    with id have "primary_key_taken (row_id ?row) (entities_table db)" by simp
    from insert_and_reread_primary_key [OF this] True assms rows
    show ?thesis by (simp add: addOrUpdateEntity_def Let_def)
  next
    case False
    with assms rows show ?thesis by (simp add: addOrUpdateEntity_def Let_def)
  qed
qed

lemma addOrUpdateEntity_with_uid_fails:
  assumes "or_null (metadata_property uid request) = Some u"
  shows "\<exists>e. addOrUpdateEntity uuidv4 db request = (Inl e, db)"
  by (simp add: addOrUpdateEntity_with_uid [OF assms])

section \<open>Server-owned metadata\<close>

text \<open>
  C10. The metadata text written by \<open>serializeMetadata\<close> never has the keys \<open>uid\<close> and
  \<open>generation\<close>. Hence for the row that \<open>addOrUpdateEntity\<close> writes for a request,
  whatever \<open>uid\<close> and \<open>generation\<close> the client put into the metadata, the envelope
  read back from the row has \<open>metadata.uid\<close> equal to the row's \<open>id\<close> column and
  \<open>metadata.generation\<close> equal to its \<open>generation\<close> column; and a successful
  \<open>addOrUpdateEntity\<close> appends exactly that row and returns exactly that envelope.
\<close>

theorem uid_generation_from_columns:
  "(case serializeMetadata m of
      None \<Rightarrow> True
    | Some t \<Rightarrow> uid (JSON_parse t) = None \<and> generation (JSON_parse t) = None)
   \<and> (\<exists>md. metadata (entity (entityDbToResponse (entityRequestToDb uuidv4 request))) = Some md
          \<and> uid md = Some (row_id (entityRequestToDb uuidv4 request))
          \<and> generation md = Some (row_generation (entityRequestToDb uuidv4 request)))
   \<and> (\<forall>response db'. addOrUpdateEntity uuidv4 db request = (Inr response, db') \<longrightarrow>
         entities_table db' = entities_table db @ [entityRequestToDb uuidv4 request]
         \<and> response = entityDbToResponse (entityRequestToDb uuidv4 request))"
proof (intro conjI allI impI)
  show "case serializeMetadata m of None \<Rightarrow> True
        | Some t \<Rightarrow> uid (JSON_parse t) = None \<and> generation (JSON_parse t) = None"
    using serializeMetadata_no_uid [of m] by (simp split: option.splits)
next
  have "row_metadata (entityRequestToDb uuidv4 request) = serializeMetadata (metadata (entity request))"
    by (simp add: entityRequestToDb_def)
  from entityDbToResponse_written_row [OF this]
  show "\<exists>md. metadata (entity (entityDbToResponse (entityRequestToDb uuidv4 request))) = Some md
          \<and> uid md = Some (row_id (entityRequestToDb uuidv4 request))
          \<and> generation md = Some (row_generation (entityRequestToDb uuidv4 request))" .
next
  fix response db'
  assume "addOrUpdateEntity uuidv4 db request = (Inr response, db')"
  from addOrUpdateEntity_Inr [OF this]
  show "entities_table db' = entities_table db @ [entityRequestToDb uuidv4 request]"
    and "response = entityDbToResponse (entityRequestToDb uuidv4 request)" by simp_all
qed


theorem uid_generation_from_columns_witness:
  "(\<exists>md. metadata (entity (entityDbToResponse (entityRequestToDb ''id-1''
            (with_metadata (\<lambda>m. m\<lparr> uid := Some [], generation := Some 7 \<rparr>)
               (create_request ''a'' None))))) = Some md
        \<and> uid md = Some ''id-1'' \<and> generation md = Some 7)
   \<and> row_id (entityRequestToDb ''id-1''
        (with_metadata (\<lambda>m. m\<lparr> uid := Some [], generation := Some 7 \<rparr>)
           (create_request ''a'' None))) = ''id-1''"
  using uid_generation_from_columns [of "Some no_metadata" "''id-1''"
      "with_metadata (\<lambda>m. m\<lparr> uid := Some [], generation := Some 7 \<rparr>) (create_request ''a'' None)"
      empty_store]
  by (simp add: entityRequestToDb_def with_metadata_def create_request_def no_metadata_def
      metadata_property_def or_string_def or_number_def)

section \<open>Evaluation of the examples\<close>

lemmas store_eval = addOrUpdateEntity_def insert_and_reread_def insert_entities_def
  primary_key_taken_def unique_name_taken_def entityRequestToDb_def entityDbToResponse_def
  create_request_def with_metadata_def no_metadata_def empty_store_def metadata_property_def
  or_null_def or_string_def or_number_def serializeMetadata_def serializeSpec_def
  JSON_stringify_def spread_Metadata_def spread_property_def index0_def Let_def
  Database_entity_def where_name_namespace_def entity_message_def

lemma one_entity_store_eq:
  "one_entity_store =
     \<lparr> entities_table = [entityRequestToDb ''id-1'' (create_request ''a'' None)],
       locations_table = [] \<rparr>"
  by (simp add: one_entity_store_def store_eval)

lemma two_entity_store_eq:
  "two_entity_store =
     \<lparr> entities_table = [entityRequestToDb ''id-1'' (create_request ''b'' (Some ''ns'')),
                         entityRequestToDb ''id-2'' (create_request ''a'' (Some ''ns''))],
       locations_table = [] \<rparr>"
  by (simp add: two_entity_store_def store_eval)

lemma duplicate_name_store_eq:
  "duplicate_name_store =
     \<lparr> entities_table = [entityRequestToDb ''id-1'' (create_request ''a'' None),
                         entityRequestToDb ''id-2'' (create_request ''a'' None)],
       locations_table = [] \<rparr>"
  by (simp add: duplicate_name_store_def one_entity_store_eq store_eval)

section \<open>Persisting and re-reading an entity\<close>

lemma written_row_fields:
  "apiVersion (entity (entityDbToResponse (entityRequestToDb g request))) = apiVersion (entity request)"
  "kind (entity (entityDbToResponse (entityRequestToDb g request))) = kind (entity request)"
  "spec (entity (entityDbToResponse (entityRequestToDb g request))) = spec (entity request)"
  by (simp_all add: entityDbToResponse_def entityRequestToDb_def Let_def serializeSpec_def
      JSON_stringify_def split: option.splits)

lemma written_row_identity:
  assumes "metadata (entity request) = Some m"
  shows "\<exists>md. metadata (entity (entityDbToResponse (entityRequestToDb g request))) = Some md
           \<and> name md = name m \<and> namespace md = namespace m
           \<and> labels md = labels m \<and> annotations md = annotations m"
  using assms
  by (simp add: entityDbToResponse_def entityRequestToDb_def Let_def serializeMetadata_def
      JSON_stringify_def spread_Metadata_def spread_property_def split: option.splits)

text \<open>
  C1, as the code has it. Let the metadata of a request have a non-empty \<open>name\<close>
  \<open>n\<close>, let \<open>addOrUpdateEntity\<close> succeed on it, and let no row stored before the call
  match \<open>n\<close> and the request's namespace. Then \<open>entity (n, namespace)\<close> on the
  resulting store returns the envelope that \<open>addOrUpdateEntity\<close> returned; its
  \<open>apiVersion\<close>, \<open>kind\<close>, \<open>metadata.name\<close>, \<open>metadata.namespace\<close> and \<open>spec\<close> are those of
  the request, and its \<open>metadata.uid\<close> and \<open>metadata.generation\<close> are present.
\<close>

theorem entity_round_trip:
  assumes "metadata_property name request = Some n" and "n \<noteq> []"
    and "addOrUpdateEntity uuidv4 db request = (Inr response, db')"
    and "filter (where_name_namespace n (metadata_property namespace request)) (entities_table db) = []"
  shows "\<exists>md. Database_entity db' n (metadata_property namespace request) = Inr response
           \<and> apiVersion (entity response) = apiVersion (entity request)
           \<and> kind (entity response) = kind (entity request)
           \<and> spec (entity response) = spec (entity request)
           \<and> metadata (entity response) = Some md
           \<and> name md = Some n
           \<and> namespace md = metadata_property namespace request
           \<and> uid md \<noteq> None \<and> generation md \<noteq> None"
proof -
  let ?row = "entityRequestToDb uuidv4 request"
  let ?ns = "metadata_property namespace request"
  from assms(1) obtain m where m: "metadata (entity request) = Some m" and nm: "name m = Some n"
    by (auto simp: metadata_property_def split: option.splits)
  from m have ns: "?ns = namespace m" by (simp add: metadata_property_def)
  from addOrUpdateEntity_Inr [OF assms(3)]
  have table: "entities_table db' = entities_table db @ [?row]"
    and response: "response = entityDbToResponse ?row" by simp_all
  have "where_name_namespace n ?ns ?row"
    using assms(1,2) by (simp add: where_name_namespace_def entityRequestToDb_def or_null_def)
  with assms(4) table
  have "filter (where_name_namespace n ?ns) (entities_table db') = [?row]" by simp
  then have read: "Database_entity db' n ?ns = Inr response"
    by (simp add: Database_entity_def index0_def response)
  from written_row_identity [OF m, of uuidv4] obtain md
    where md: "metadata (entity response) = Some md" "name md = name m" "namespace md = namespace m"
    unfolding response by blast
  have "row_metadata ?row = serializeMetadata (metadata (entity request))"
    by (simp add: entityRequestToDb_def)
  from entityDbToResponse_written_row [OF this] md(1)
  have "uid md \<noteq> None" and "generation md \<noteq> None"
    unfolding response by auto
  with read md nm ns show ?thesis
    by (simp add: response written_row_fields)
qed

theorem entity_round_trip_witness:
  "Database_entity (snd (addOrUpdateEntity ''id-1'' empty_store (create_request ''a'' None))) ''a'' None
     = Inr \<lparr> locationId = None,
             entity = \<lparr> apiVersion = ''v1'', kind = ''Component'',
                        metadata = Some (no_metadata\<lparr> uid := Some ''id-1'', generation := Some 1,
                                                      name := Some ''a'' \<rparr>),
                        spec = Some (Obj []) \<rparr> \<rparr>"
proof -
  have add: "addOrUpdateEntity ''id-1'' empty_store (create_request ''a'' None)
     = (Inr \<lparr> locationId = None,
             entity = \<lparr> apiVersion = ''v1'', kind = ''Component'',
                        metadata = Some (no_metadata\<lparr> uid := Some ''id-1'', generation := Some 1,
                                                      name := Some ''a'' \<rparr>),
                        spec = Some (Obj []) \<rparr> \<rparr>,
        snd (addOrUpdateEntity ''id-1'' empty_store (create_request ''a'' None)))"
    by (simp add: store_eval)
  have nm: "metadata_property name (create_request ''a'' None) = Some ''a''"
    and ns: "metadata_property namespace (create_request ''a'' None) = None"
    by (simp_all add: metadata_property_def create_request_def no_metadata_def)
  have "''a'' \<noteq> []" by simp
  from entity_round_trip [OF nm this add] ns show ?thesis
    by (auto simp: empty_store_def)
qed

text \<open>
  The request \<open>{metadata: {name: ''}}\<close> has a name, the empty string.
  \<open>entityRequestToDb\<close> stores \<open>name || null\<close>, which is \<open>NULL\<close>; \<open>addOrUpdateEntity\<close>
  succeeds, and \<open>entity ('', undefined)\<close> then finds no row.
\<close>

theorem entity_round_trip_counterexample:
  "metadata_property name (create_request [] None) = Some []
   \<and> fst (addOrUpdateEntity ''id-1'' empty_store (create_request [] None))
       = Inr (entityDbToResponse (entityRequestToDb ''id-1'' (create_request [] None)))
   \<and> Database_entity (snd (addOrUpdateEntity ''id-1'' empty_store (create_request [] None))) [] None
       = Inl (NotFoundError ''Found no component with name , namespace <null>'')"
  by (simp add: store_eval)

text \<open>
  The hypothesis on the rows stored before is needed: the unique constraint does
  not cover a \<open>NULL\<close> namespace, so the same request without a namespace can be
  persisted twice, and the lookup then finds two rows.
\<close>

lemma persisted_twice_not_found:
  "fst (addOrUpdateEntity ''id-2'' one_entity_store (create_request ''a'' None))
     = Inr (entityDbToResponse (entityRequestToDb ''id-2'' (create_request ''a'' None)))
   \<and> Database_entity duplicate_name_store ''a'' None
     = Inl (NotFoundError ''Found no component with name a, namespace <null>'')"
  by (simp add: duplicate_name_store_eq one_entity_store_eq store_eval)

section \<open>Generation on create\<close>

lemma row_generation_entityRequestToDb:
  "row_generation (entityRequestToDb g request) =
     (case metadata_property generation request of
        None \<Rightarrow> 1 | Some v \<Rightarrow> if v = 0 then 1 else v)"
  by (simp add: entityRequestToDb_def or_number_def)

text \<open>
  C2 fails on the code. The create request \<open>{metadata: {name: 'a', generation: 5}}\<close>
  has no \<open>uid\<close>; \<open>entityRequestToDb\<close> takes \<open>metadata.generation || 1\<close>, so the stored
  row and the returned envelope both carry the client's generation 5, not 1.
\<close>

theorem create_keeps_client_generation:
  "metadata_property uid generation_request = None
   \<and> metadata_property generation generation_request = Some 5
   \<and> addOrUpdateEntity ''id-1'' empty_store generation_request
       = (Inr \<lparr> locationId = None,
                entity = \<lparr> apiVersion = ''v1'', kind = ''Component'',
                           metadata = Some (no_metadata\<lparr> uid := Some ''id-1'',
                                              generation := Some 5, name := Some ''a'' \<rparr>),
                           spec = Some (Obj []) \<rparr> \<rparr>,
          \<lparr> entities_table = [entityRequestToDb ''id-1'' generation_request],
            locations_table = [] \<rparr>)
   \<and> row_generation (entityRequestToDb ''id-1'' generation_request) = 5"
  by (simp add: generation_request_def store_eval)

section \<open>Conflict on an unknown uid, update of a known one\<close>

text \<open>
  What \<open>addOrUpdateEntity\<close> does outside of the update path. For a non-empty
  \<open>metadata.uid\<close> that no row of the table has, it fails with the Conflict error and
  leaves the store as it was. Without a \<open>uid\<close> (or with the empty string), when the
  generated id is not yet a primary key and the row does not collide with the
  unique constraint on \<open>(name, namespace)\<close>, it appends the serialized row and
  returns the envelope read back from that row.
\<close>

lemma conflict_or_create:
  "(metadata_property uid request = Some u \<and> u \<noteq> [] \<and> \<not> primary_key_taken u (entities_table db)
      \<longrightarrow> addOrUpdateEntity uuidv4 db request
            = (Inl (ConflictError ''Unexpected uid for new entity''), db))
   \<and> ((metadata_property uid request = None \<or> metadata_property uid request = Some [])
       \<and> \<not> primary_key_taken uuidv4 (entities_table db)
       \<and> \<not> unique_name_taken (entityRequestToDb uuidv4 request) (entities_table db)
      \<longrightarrow> addOrUpdateEntity uuidv4 db request
            = (Inr (entityDbToResponse (entityRequestToDb uuidv4 request)),
               db\<lparr> entities_table := entities_table db @ [entityRequestToDb uuidv4 request] \<rparr>))"
proof (intro conjI impI)
  assume "metadata_property uid request = Some u \<and> u \<noteq> [] \<and> \<not> primary_key_taken u (entities_table db)"
  then have "or_null (metadata_property uid request) = Some u"
    and "\<not> primary_key_taken u (entities_table db)"
    by (simp_all add: or_null_def)
  then show "addOrUpdateEntity uuidv4 db request
            = (Inl (ConflictError ''Unexpected uid for new entity''), db)"
    by (simp add: addOrUpdateEntity_with_uid)
next
  let ?row = "entityRequestToDb uuidv4 request"
  assume a: "(metadata_property uid request = None \<or> metadata_property uid request = Some [])
       \<and> \<not> primary_key_taken uuidv4 (entities_table db)
       \<and> \<not> unique_name_taken ?row (entities_table db)"
  then have absent: "or_null (metadata_property uid request) = None"
    by (auto simp: or_null_def)
  from a have "row_id ?row = uuidv4"
    by (auto simp: entityRequestToDb_def or_string_def)
  with a have "insert_and_reread db ?row
      = (Inr (entityDbToResponse ?row), db\<lparr> entities_table := entities_table db @ [?row] \<rparr>)"
    by (simp add: insert_and_reread_accepted)
  with absent show "addOrUpdateEntity uuidv4 db request
      = (Inr (entityDbToResponse ?row), db\<lparr> entities_table := entities_table db @ [?row] \<rparr>)"
    by (simp add: addOrUpdateEntity_def Let_def)
qed

lemma conflict_or_create_examples:
  "addOrUpdateEntity ''id-2'' empty_store update_request
     = (Inl (ConflictError ''Unexpected uid for new entity''), empty_store)
   \<and> addOrUpdateEntity ''id-2'' one_entity_store (create_request ''b'' None)
     = (Inr (entityDbToResponse (entityRequestToDb ''id-2'' (create_request ''b'' None))),
        one_entity_store\<lparr> entities_table := entities_table one_entity_store
                            @ [entityRequestToDb ''id-2'' (create_request ''b'' None)] \<rparr>)"
  by (simp add: one_entity_store_eq update_request_def store_eval)

text \<open>
  C3 fails on the code. The store holds the row with id \<open>id-1\<close>, and the request
  supplies \<open>metadata.uid = 'id-1'\<close>: a matching row exists, and the call is to insert
  the serialized row and return the persisted form read back. The code finds
  \<open>oldRow\<close>, does nothing with it, and inserts a new row whose \<open>id\<close> is that \<open>uid\<close>; the
  primary key rejects the insert, the call fails with the store's error, and
  nothing is stored or returned.
\<close>

theorem update_of_stored_uid_fails:
  "metadata_property uid update_request = Some ''id-1''
   \<and> map row_id (entities_table one_entity_store) = [''id-1'']
   \<and> addOrUpdateEntity ''id-2'' one_entity_store update_request
       = (Inl (ConstraintError ''entities.id''), one_entity_store)"
  by (simp add: one_entity_store_eq update_request_def store_eval)

section \<open>Listing entities\<close>

lemma orderBy_namespace_sorted:
  "sorted (map row_namespace (orderBy_namespace rows))"
  "mset (orderBy_namespace rows) = mset rows"
  by (simp_all add: orderBy_namespace_def)

text \<open>
  C7 fails on the code. After \<open>addOrUpdateEntity\<close> of \<open>b\<close> and then of \<open>a\<close>, both in
  namespace \<open>ns\<close>, \<open>entities ()\<close> lists \<open>b\<close> before \<open>a\<close>: the query orders by
  \<open>namespace\<close> alone and \<open>name\<close> is no sort key, so the list is not sorted by
  \<open>(namespace, name)\<close>.
\<close>

theorem entities_not_ordered_by_name:
  "map namespace_name (entities two_entity_store)
     = [(Some ''ns'', Some ''b''), (Some ''ns'', Some ''a'')]
   \<and> \<not> sorted (map namespace_name (entities two_entity_store))"
proof -
  have "map namespace_name (entities two_entity_store)
     = [(Some ''ns'', Some ''b''), (Some ''ns'', Some ''a'')]"
    by (simp add: two_entity_store_eq entities_def orderBy_namespace_def namespace_name_def
        entityRequestToDb_def entityDbToResponse_def create_request_def no_metadata_def
        metadata_property_def or_null_def or_string_def or_number_def serializeMetadata_def
        serializeSpec_def JSON_stringify_def spread_Metadata_def spread_property_def Let_def)
  moreover have "\<not> sorted [(Some ''ns'', Some ''b''), (Some ''ns'', Some ''a'')]"
    by (simp add: less_eq_char_def less_char_def)
  ultimately show ?thesis by simp
qed

section \<open>Looking up one entity\<close>

lemma length_one_conv: "length xs = Suc 0 \<longleftrightarrow> (\<exists>x. xs = [x])"
  by (cases xs) auto

text \<open>
  C8. \<open>entity (name, namespace)\<close> selects the rows whose \<open>name\<close> is the given name and
  whose \<open>namespace\<close> is \<open>namespace || null\<close>. It fails exactly when the number of
  these rows is not one (none, or more than one), and then with the NotFound
  error; when exactly one row matches, it returns the envelope of that row, which
  is a row of the table with that name and namespace.
\<close>

theorem entity_not_found_iff:
  "((\<exists>e. Database_entity db n ns = Inl e)
      \<longleftrightarrow> length (filter (where_name_namespace n ns) (entities_table db)) \<noteq> 1)
   \<and> (length (filter (where_name_namespace n ns) (entities_table db)) \<noteq> 1
          \<longrightarrow> Database_entity db n ns = Inl (NotFoundError (entity_message n ns)))
   \<and> (\<forall>row. filter (where_name_namespace n ns) (entities_table db) = [row]
          \<longrightarrow> Database_entity db n ns = Inr (entityDbToResponse row))
   \<and> (length (filter (where_name_namespace n ns) (entities_table db)) = 1
          \<longrightarrow> (\<exists>row \<in> set (entities_table db).
                 row_name row = Some n \<and> row_namespace row = or_null ns
                 \<and> Database_entity db n ns = Inr (entityDbToResponse row)))"
proof (intro conjI allI impI)
  show "(\<exists>e. Database_entity db n ns = Inl e)
      \<longleftrightarrow> length (filter (where_name_namespace n ns) (entities_table db)) \<noteq> 1"
    by (auto simp: Database_entity_def Let_def index0_def length_one_conv split: list.splits)
next
  assume "length (filter (where_name_namespace n ns) (entities_table db)) \<noteq> 1"
  then show "Database_entity db n ns = Inl (NotFoundError (entity_message n ns))"
    by (simp add: Database_entity_def Let_def)
next
  fix row assume "filter (where_name_namespace n ns) (entities_table db) = [row]"
  then show "Database_entity db n ns = Inr (entityDbToResponse row)"
    by (simp add: Database_entity_def index0_def)
next
  assume "length (filter (where_name_namespace n ns) (entities_table db)) = 1"
  then obtain row where row: "filter (where_name_namespace n ns) (entities_table db) = [row]"
    by (auto simp: length_one_conv)
  then have "row \<in> set (filter (where_name_namespace n ns) (entities_table db))" by simp
  then have "row \<in> set (entities_table db)" and "where_name_namespace n ns row" by simp_all
  moreover from row have "Database_entity db n ns = Inr (entityDbToResponse row)"
    by (simp add: Database_entity_def index0_def)
  ultimately show "\<exists>row \<in> set (entities_table db).
                 row_name row = Some n \<and> row_namespace row = or_null ns
                 \<and> Database_entity db n ns = Inr (entityDbToResponse row)"
    by (auto simp: where_name_namespace_def)
qed

theorem entity_not_found_iff_witness:
  "Database_entity empty_store ''missing'' None
     = Inl (NotFoundError ''Found no component with name missing, namespace <null>'')
   \<and> Database_entity duplicate_name_store ''a'' None
     = Inl (NotFoundError ''Found no component with name a, namespace <null>'')
   \<and> Database_entity one_entity_store ''a'' None
     = Inr (entityDbToResponse (entityRequestToDb ''id-1'' (create_request ''a'' None)))"
proof (intro conjI)
  have "length (filter (where_name_namespace ''missing'' None) (entities_table empty_store)) \<noteq> 1"
    by (simp add: empty_store_def)
  with entity_not_found_iff [of empty_store "''missing''" None]
  have "Database_entity empty_store ''missing'' None
          = Inl (NotFoundError (entity_message ''missing'' None))" by blast
  then show "Database_entity empty_store ''missing'' None
     = Inl (NotFoundError ''Found no component with name missing, namespace <null>'')"
    by (simp add: entity_message_def or_string_def)
next
  have "length (filter (where_name_namespace ''a'' None) (entities_table duplicate_name_store)) \<noteq> 1"
    by (simp add: duplicate_name_store_eq where_name_namespace_def entityRequestToDb_def
        create_request_def no_metadata_def metadata_property_def or_null_def)
  with entity_not_found_iff [of duplicate_name_store "''a''" None]
  have "Database_entity duplicate_name_store ''a'' None
          = Inl (NotFoundError (entity_message ''a'' None))" by blast
  then show "Database_entity duplicate_name_store ''a'' None
     = Inl (NotFoundError ''Found no component with name a, namespace <null>'')"
    by (simp add: entity_message_def or_string_def)
next
  have "filter (where_name_namespace ''a'' None) (entities_table one_entity_store)
          = [entityRequestToDb ''id-1'' (create_request ''a'' None)]"
    by (simp add: one_entity_store_eq where_name_namespace_def entityRequestToDb_def
        create_request_def no_metadata_def metadata_property_def or_null_def)
  with entity_not_found_iff [of one_entity_store "''a''" None]
  show "Database_entity one_entity_store ''a'' None
     = Inr (entityDbToResponse (entityRequestToDb ''id-1'' (create_request ''a'' None)))"
    by blast
qed

section \<open>Removing a location\<close>



lemma filter_eq_unknown:
  "filter (\<lambda>l. f l = i) xs = [] \<longleftrightarrow> i \<notin> set (map f xs)"
  by (induction xs) auto



section \<open>Adding a location\<close>

lemma index0_simps:
  "index0 [] = None"
  "index0 (x # xs) = Some x"
  by (simp_all add: index0_def)

lemma index0_None_conv: "index0 xs = None \<longleftrightarrow> xs = []"
  by (cases xs) (simp_all add: index0_def)

lemma index0_Some_mem: "index0 (filter P xs) = Some x \<Longrightarrow> x \<in> set xs \<and> P x"
proof -
  assume "index0 (filter P xs) = Some x"
  then obtain ys where "filter P xs = x # ys"
    by (cases "filter P xs") (simp_all add: index0_def)
  then have "x \<in> set (filter P xs)" by simp
  then show ?thesis by simp
qed

lemma addLocation_existing:
  assumes "index0 (filter (\<lambda>l. loc_target l = add_target location) (locations_table db)) = Some existing"
  shows "addLocation uuidv4 db location = (Inr (Some existing), db)"
  using assms by (simp add: addLocation_def Let_def)

lemma addLocation_new:
  assumes "filter (\<lambda>l. loc_target l = add_target location) (locations_table db) = []"
    and "uuidv4 \<notin> set (map loc_id (locations_table db))"
  shows "addLocation uuidv4 db location =
           (Inr (Some \<lparr> loc_id = uuidv4, loc_type = add_type location, loc_target = add_target location \<rparr>),
            db\<lparr> locations_table := locations_table db
                   @ [\<lparr> loc_id = uuidv4, loc_type = add_type location, loc_target = add_target location \<rparr>] \<rparr>)"
proof -
  from assms(2) have "filter (\<lambda>l. loc_id l = uuidv4) (locations_table db) = []"
    by (simp add: filter_eq_unknown)
  with assms show ?thesis
    by (simp add: addLocation_def Let_def insert_locations_def index0_def)
qed

lemma addLocation_taken:
  assumes "filter (\<lambda>l. loc_target l = add_target location) (locations_table db) = []"
    and "uuidv4 \<in> set (map loc_id (locations_table db))"
  shows "addLocation uuidv4 db location = (Inl (ConstraintError ''locations.id''), db)"
  using assms by (simp add: addLocation_def Let_def insert_locations_def index0_def)

text \<open>
  C6. \<open>addLocation\<close> is idempotent by target. When a row with the target of the
  input exists, the call returns the first such row as it is and leaves the store
  unchanged: nothing is inserted. Whenever a call returns, it returns a row with
  that target, and a second call with the same target on the resulting store
  (whatever id it would generate, whatever type it carries) returns that very row,
  hence the same \<open>id\<close>, and changes nothing. The first call returns whenever the
  generated id is not yet a primary key of the table.
\<close>

theorem addLocation_idempotent:
  "((\<exists>l \<in> set (locations_table db). loc_target l = add_target location)
       \<longrightarrow> (\<exists>existing \<in> set (locations_table db). loc_target existing = add_target location
              \<and> index0 (filter (\<lambda>l. loc_target l = add_target location) (locations_table db)) = Some existing
              \<and> addLocation uuidv4 db location = (Inr (Some existing), db)))
   \<and> (\<forall>first db1. addLocation uuidv4 db location = (Inr first, db1)
                    \<and> add_target location2 = add_target location
       \<longrightarrow> (\<exists>row. first = Some row \<and> loc_target row = add_target location
                 \<and> addLocation uuidv4' db1 location2 = (Inr (Some row), db1)))
   \<and> (uuidv4 \<notin> set (map loc_id (locations_table db))
       \<longrightarrow> (\<exists>row db1. addLocation uuidv4 db location = (Inr (Some row), db1)))"
proof (intro conjI allI impI)
  let ?same = "\<lambda>l. loc_target l = add_target location"
  assume "\<exists>l \<in> set (locations_table db). loc_target l = add_target location"
  then have "filter ?same (locations_table db) \<noteq> []"
    by (auto simp: filter_empty_conv)
  then obtain existing where e: "index0 (filter ?same (locations_table db)) = Some existing"
    by (cases "filter ?same (locations_table db)") (simp_all add: index0_def)
  from index0_Some_mem [OF e] addLocation_existing [OF e] e
  show "\<exists>existing \<in> set (locations_table db). loc_target existing = add_target location
          \<and> index0 (filter ?same (locations_table db)) = Some existing
          \<and> addLocation uuidv4 db location = (Inr (Some existing), db)"
    by blast
next
  let ?same = "\<lambda>l. loc_target l = add_target location"
  let ?new = "\<lparr> loc_id = uuidv4, loc_type = add_type location, loc_target = add_target location \<rparr>"
  fix first db1
  assume a: "addLocation uuidv4 db location = (Inr first, db1)
             \<and> add_target location2 = add_target location"
  show "\<exists>row. first = Some row \<and> loc_target row = add_target location
                 \<and> addLocation uuidv4' db1 location2 = (Inr (Some row), db1)"
  proof (cases "index0 (filter ?same (locations_table db))")
    case (Some existing)
    from addLocation_existing [OF Some] a have "first = Some existing" and "db1 = db"
      by simp_all
    moreover from Some a
    have "index0 (filter (\<lambda>l. loc_target l = add_target location2) (locations_table db)) = Some existing"
      by simp
    from addLocation_existing [OF this]
    have "addLocation uuidv4' db location2 = (Inr (Some existing), db)" .
    ultimately show ?thesis using index0_Some_mem [OF Some] by simp
  next
    case None
    then have none: "filter ?same (locations_table db) = []"
      by (simp add: index0_None_conv)
    have fresh: "uuidv4 \<notin> set (map loc_id (locations_table db))"
    proof
      assume "uuidv4 \<in> set (map loc_id (locations_table db))"
      from addLocation_taken [OF none this] a show False by simp
    qed
    from addLocation_new [OF none fresh] a
    have first: "first = Some ?new"
      and db1: "db1 = db\<lparr> locations_table := locations_table db @ [?new] \<rparr>"
      by simp_all
    from none a
    have "index0 (filter (\<lambda>l. loc_target l = add_target location2) (locations_table db1)) = Some ?new"
      by (simp add: db1 index0_def)
    from addLocation_existing [OF this]
    have "addLocation uuidv4' db1 location2 = (Inr (Some ?new), db1)" .
    with first show ?thesis by simp
  qed
next
  let ?same = "\<lambda>l. loc_target l = add_target location"
  assume fresh: "uuidv4 \<notin> set (map loc_id (locations_table db))"
  show "\<exists>row db1. addLocation uuidv4 db location = (Inr (Some row), db1)"
  proof (cases "index0 (filter ?same (locations_table db))")
    case (Some existing)
    from addLocation_existing [OF Some] show ?thesis by blast
  next
    case None
    then have "filter ?same (locations_table db) = []" by (simp add: index0_None_conv)
    from addLocation_new [OF this fresh] show ?thesis by blast
  qed
qed

theorem addLocation_idempotent_witness:
  "addLocation ''loc-1'' empty_store github_location
     = (Inr (Some \<lparr> loc_id = ''loc-1'', loc_type = ''github'', loc_target = ''t1'' \<rparr>),
        one_location_store)
   \<and> addLocation ''loc-2'' one_location_store github_location
     = (Inr (Some \<lparr> loc_id = ''loc-1'', loc_type = ''github'', loc_target = ''t1'' \<rparr>),
        one_location_store)"
proof -
  have first: "addLocation ''loc-1'' empty_store github_location
     = (Inr (Some \<lparr> loc_id = ''loc-1'', loc_type = ''github'', loc_target = ''t1'' \<rparr>),
        one_location_store)"
    by (simp add: addLocation_def insert_locations_def index0_def Let_def empty_store_def
        github_location_def one_location_store_def)
  with addLocation_idempotent [of empty_store github_location "''loc-1''" github_location "''loc-2''"]
  have "\<exists>row. Some \<lparr> loc_id = ''loc-1'', loc_type = ''github'', loc_target = ''t1'' \<rparr> = Some row
          \<and> addLocation ''loc-2'' one_location_store github_location
              = (Inr (Some row), one_location_store)"
    by blast
  with first show ?thesis by auto
qed

section \<open>Messages to the login popup listener\<close>

lemma messageListener_ignores:
  assumes "event_source ev \<noteq> Some (popup st) \<or> event_origin ev \<noteq> Some (trusted_origin st)
           \<or> (\<forall>d. event_data ev = Some d \<longrightarrow> data_type d \<noteq> Some ''oauth-result'' \<or> data_payload d = None)"
  shows "messageListener st ev = st"
  using assms by (auto simp: messageListener_def split: option.splits)

text \<open>
  C4. A message that lacks any one of: a \<open>source\<close> identical to the opened popup, an
  \<open>origin\<close> equal to the trusted origin, a \<open>data.type\<close> equal to \<open>oauth-result\<close>, a
  present \<open>data.payload\<close>, leaves the state of the call as it was: the result is
  not settled, no listener is removed and the timer keeps running. The same holds
  for any sequence of such messages.
\<close>

theorem unaccepted_message_ignored:
  "(event_source ev \<noteq> Some (popup st) \<or> event_origin ev \<noteq> Some (trusted_origin st)
      \<or> (\<forall>d. event_data ev = Some d \<longrightarrow> data_type d \<noteq> Some ''oauth-result'' \<or> data_payload d = None)
     \<longrightarrow> messageListener st ev = st)
   \<and> ((\<forall>ev \<in> set evs.
          event_source ev \<noteq> Some (popup st) \<or> event_origin ev \<noteq> Some (trusted_origin st)
          \<or> (\<forall>d. event_data ev = Some d \<longrightarrow> data_type d \<noteq> Some ''oauth-result'' \<or> data_payload d = None))
     \<longrightarrow> foldl messageListener st evs = st)"
proof (intro conjI impI)
  assume "event_source ev \<noteq> Some (popup st) \<or> event_origin ev \<noteq> Some (trusted_origin st)
      \<or> (\<forall>d. event_data ev = Some d \<longrightarrow> data_type d \<noteq> Some ''oauth-result'' \<or> data_payload d = None)"
  then show "messageListener st ev = st" by (rule messageListener_ignores)
next
  assume "\<forall>ev \<in> set evs.
          event_source ev \<noteq> Some (popup st) \<or> event_origin ev \<noteq> Some (trusted_origin st)
          \<or> (\<forall>d. event_data ev = Some d \<longrightarrow> data_type d \<noteq> Some ''oauth-result'' \<or> data_payload d = None)"
  then show "foldl messageListener st evs = st"
  proof (induction evs)
    case Nil
    then show ?case by simp
  next
    case (Cons e es)
    then have "messageListener st e = st" by (simp add: messageListener_ignores)
    with Cons show ?case by simp
  qed
qed

theorem unaccepted_message_ignored_witness:
  "foldl messageListener (showLoginPopup test_options popupMock) ignored_events
     = showLoginPopup test_options popupMock
   \<and> result (foldl messageListener (showLoginPopup test_options popupMock) ignored_events) = Pending
   \<and> listeners_removed (foldl messageListener (showLoginPopup test_options popupMock) ignored_events) = 0
   \<and> polling (foldl messageListener (showLoginPopup test_options popupMock) ignored_events)"
proof -
  let ?st = "showLoginPopup test_options popupMock"
  have "\<forall>ev \<in> set ignored_events.
          event_source ev \<noteq> Some (popup ?st) \<or> event_origin ev \<noteq> Some (trusted_origin ?st)
          \<or> (\<forall>d. event_data ev = Some d \<longrightarrow> data_type d \<noteq> Some ''oauth-result'' \<or> data_payload d = None)"
    by (simp add: ignored_events_def empty_event_def empty_data_def showLoginPopup_def
        test_options_def popupMock_def)
  with unaccepted_message_ignored [of _ ?st ignored_events]
  have "foldl messageListener ?st ignored_events = ?st" by blast
  then show ?thesis by (simp add: showLoginPopup_def)
qed

text \<open>
  C5. For a message that the listener accepts while the result is pending: if the
  payload has an \<open>error\<close>, the result is rejected with an error of the same \<open>name\<close>
  and \<open>message\<close>; if it has none, the result is resolved with that very payload
  (same reference, same content). Either way the listener is removed once and the
  polling stops.
\<close>

theorem accepted_message_settles:
  assumes "result st = Pending"
    and "event_source ev = Some (popup st)"
    and "event_origin ev = Some (trusted_origin st)"
    and "event_data ev = Some d"
    and "data_type d = Some ''oauth-result''"
    and "data_payload d = Some p"
  shows "(\<forall>e. payload_error p = Some e \<longrightarrow>
            result (messageListener st ev)
              = Rejected \<lparr> error_name = error_name e, error_message = error_message e \<rparr>)
       \<and> (payload_error p = None \<longrightarrow> result (messageListener st ev) = Resolved p)
       \<and> listeners_removed (messageListener st ev) = listeners_removed st + 1
       \<and> listeners_added (messageListener st ev) = listeners_added st
       \<and> \<not> polling (messageListener st ev)"
  using assms by (auto simp: messageListener_def settle_def split: option.splits)

theorem accepted_message_settles_witness:
  "result (messageListener (showLoginPopup test_options popupMock) (result_event myPayload))
     = Resolved myPayload
   \<and> result (messageListener (showLoginPopup test_options popupMock) (result_event nope_payload))
     = Rejected \<lparr> error_name = ''NopeError'', error_message = ''NOPE'' \<rparr>
   \<and> listeners_removed (messageListener (foldl messageListener
         (showLoginPopup test_options popupMock) ignored_events) (result_event myPayload)) = 1"
proof (intro conjI)
  let ?st = "showLoginPopup test_options popupMock"
  let ?d = "\<lambda>p. \<lparr> data_type = Some ''oauth-result'', data_payload = Some p \<rparr>"
  have st: "result ?st = Pending" "popup ?st = popupMock" "trusted_origin ?st = ''my-origin''"
    "listeners_removed ?st = 0"
    by (simp_all add: showLoginPopup_def test_options_def)
  have ev: "event_source (result_event p) = Some popupMock"
    "event_origin (result_event p) = Some ''my-origin''"
    "event_data (result_event p) = Some (?d p)" for p
    by (simp_all add: result_event_def)
  have "payload_error myPayload = None" by (simp add: myPayload_def)
  with accepted_message_settles [of ?st "result_event myPayload" "?d myPayload" myPayload] st ev
  show "result (messageListener ?st (result_event myPayload)) = Resolved myPayload"
    by simp
  have "payload_error nope_payload = Some \<lparr> error_name = ''NopeError'', error_message = ''NOPE'' \<rparr>"
    by (simp add: nope_payload_def)
  with accepted_message_settles [of ?st "result_event nope_payload" "?d nope_payload" nope_payload] st ev
  show "result (messageListener ?st (result_event nope_payload))
     = Rejected \<lparr> error_name = ''NopeError'', error_message = ''NOPE'' \<rparr>"
    by simp
  have same: "foldl messageListener ?st ignored_events = ?st"
    by (simp add: ignored_events_def empty_event_def empty_data_def showLoginPopup_def
        test_options_def popupMock_def messageListener_def)
  from accepted_message_settles [of ?st "result_event myPayload" "?d myPayload" myPayload] st ev
  show "listeners_removed (messageListener (foldl messageListener ?st ignored_events)
          (result_event myPayload)) = 1"
    by (simp add: same)
qed


end
